theory Spec2Isabelle
  imports Complex_Main "HOL-Library.Sublist"
begin

section \<open>Data model\<close>

text \<open>
  The model covers the classes of \<^verbatim>\<open>room.py\<close>, \<^verbatim>\<open>booking.py\<close> and \<^verbatim>\<open>guest.py\<close>.

  \<^item> A \<^verbatim>\<open>datetime\<close> is an integer count of microseconds since a fixed instant (naive
    datetimes, as \<^verbatim>\<open>datetime.now()\<close> gives them); comparison is comparison of integers
    and the difference of two datetimes is a \<^verbatim>\<open>timedelta\<close>, again a count of
    microseconds.
  \<^item> A price is an exact rational number. The rounding of binary floating point is not
    modelled.
  \<^item> Objects are shared by reference: a booking holds references to its rooms and to its
    guest, a guest holds references to bookings. A \<open>heap\<close> has one store for each class,
    from references to objects; \<open>next_room\<close>, \<open>next_guest\<close> and \<open>next_booking\<close> are
    the first references that the constructor of the class has not handed out yet.
    Python compares objects of these classes by identity, which is equality of
    references here.
  \<^item> Every \<^verbatim>\<open>raise\<close> of the source is a value of type \<open>error\<close>. All of them are
    \<^verbatim>\<open>ValueError\<close> in the source and differ in their message; the constructor names
    are those of the specification.
  \<^item> \<^verbatim>\<open>print\<close> calls are left out.
\<close>

type_synonym ref = nat
type_synonym datetime = int
type_synonym timedelta = int

datatype RoomType = SINGLE | DOUBLE | SUITE | DELUXE

datatype error =
    InvalidRangeError
      \<comment> \<open>\<^verbatim>\<open>ValueError("Check-in date must be before check-out date")\<close>\<close>
  | RoomUnavailableError int
      \<comment> \<open>\<^verbatim>\<open>ValueError(f"Room {n} is not available for the requested dates")\<close>\<close>
  | EmptyBookingError
      \<comment> \<open>\<^verbatim>\<open>ValueError("Cannot create a booking with no rooms")\<close>\<close>
  | UnconfirmedBookingError
      \<comment> \<open>\<^verbatim>\<open>ValueError("Cannot send confirmation for an unconfirmed booking")\<close>\<close>
  | NegativePriceError
      \<comment> \<open>\<^verbatim>\<open>ValueError("Price cannot be negative")\<close>\<close>

record Room =
  room_number :: int
  room_type :: RoomType
  amenities :: "string list"
  price_per_night :: rat
  is_available :: bool
  bookings :: "(datetime \<times> datetime) list"

record Booking =
  booking_id :: string
  guest :: ref
  rooms :: "ref list"
  check_in_date :: datetime
  check_out_date :: datetime
  total_cost :: rat
  is_confirmed :: bool
  is_canceled :: bool

record Guest =
  guest_id :: int
  name :: string
  contact :: string
  email :: string
  loyalty_program :: "ref option"
  reservations :: "ref list"

record heap =
  room_heap :: "ref \<Rightarrow> Room"
  booking_heap :: "ref \<Rightarrow> Booking"
  guest_heap :: "ref \<Rightarrow> Guest"
  next_room :: ref
  next_guest :: ref
  next_booking :: ref

section \<open>Room\<close>

definition Room_init :: "int \<Rightarrow> RoomType \<Rightarrow> string list \<Rightarrow> rat \<Rightarrow> Room" where
  "Room_init number rtype amen price =
     \<lparr>room_number = number, room_type = rtype, amenities = amen,
      price_per_night = price, is_available = True, bookings = []\<rparr>"

text \<open>The \<^verbatim>\<open>for\<close> loop of \<^verbatim>\<open>check_availability\<close> over the stored intervals.\<close>

fun check_availability_loop :: "(datetime \<times> datetime) list \<Rightarrow> datetime \<Rightarrow> datetime \<Rightarrow> bool" where
  "check_availability_loop [] check_in check_out = True"
| "check_availability_loop ((booking_check_in, booking_check_out) # rest) check_in check_out =
     (if check_in < booking_check_out \<and> check_out > booking_check_in then False
      else check_availability_loop rest check_in check_out)"

definition check_availability :: "Room \<Rightarrow> datetime \<Rightarrow> datetime \<Rightarrow> error + bool" where
  "check_availability self check_in check_out =
     (if check_in \<ge> check_out then Inl InvalidRangeError
      else Inr (check_availability_loop (bookings self) check_in check_out))"

text \<open>
  \<^verbatim>\<open>add_booking\<close> returns the room as the call leaves it, together with the value
  returned or the exception raised.
\<close>

definition add_booking :: "Room \<Rightarrow> datetime \<Rightarrow> datetime \<Rightarrow> Room \<times> (error + bool)" where
  "add_booking self check_in check_out =
     (case check_availability self check_in check_out of
        Inl e \<Rightarrow> (self, Inl e)
      | Inr available \<Rightarrow>
          if \<not> available then (self, Inl (RoomUnavailableError (room_number self)))
          else (self\<lparr>bookings := bookings self @ [(check_in, check_out)]\<rparr>, Inr True))"

definition update_status :: "Room \<Rightarrow> bool \<Rightarrow> Room" where
  "update_status self avail = self\<lparr>is_available := avail\<rparr>"

definition set_amenities :: "Room \<Rightarrow> string list \<Rightarrow> Room" where
  "set_amenities self v = self\<lparr>amenities := v\<rparr>"

definition set_price_per_night :: "Room \<Rightarrow> rat \<Rightarrow> Room \<times> (error + unit)" where
  "set_price_per_night self v =
     (if v < 0 then (self, Inl NegativePriceError)
      else (self\<lparr>price_per_night := v\<rparr>, Inr ()))"

section \<open>Guest\<close>

definition Guest_init :: "int \<Rightarrow> string \<Rightarrow> string \<Rightarrow> string \<Rightarrow> Guest" where
  "Guest_init gid nm ct em =
     \<lparr>guest_id = gid, name = nm, contact = ct, email = em,
      loyalty_program = None, reservations = []\<rparr>"

definition add_reservation :: "Guest \<Rightarrow> ref \<Rightarrow> Guest \<times> bool" where
  "add_reservation self reservation =
     (self\<lparr>reservations := reservations self @ [reservation]\<rparr>, True)"

text \<open>
  \<^verbatim>\<open>update_profile\<close>: an argument left out is \<^verbatim>\<open>None\<close>; \<^verbatim>\<open>if name:\<close> holds for a
  string that is given and not empty.
\<close>

definition update_profile ::
  "Guest \<Rightarrow> string option \<Rightarrow> string option \<Rightarrow> string option \<Rightarrow> Guest \<times> bool" where
  "update_profile self nm ct em =
     (let s1 = (case nm of Some v \<Rightarrow> if v \<noteq> [] then self\<lparr>name := v\<rparr> else self | None \<Rightarrow> self);
          s2 = (case ct of Some v \<Rightarrow> if v \<noteq> [] then s1\<lparr>contact := v\<rparr> else s1 | None \<Rightarrow> s1);
          s3 = (case em of Some v \<Rightarrow> if v \<noteq> [] then s2\<lparr>email := v\<rparr> else s2 | None \<Rightarrow> s2)
      in (s3, True))"

definition set_loyalty_program :: "Guest \<Rightarrow> ref \<Rightarrow> Guest" where
  "set_loyalty_program self lp = self\<lparr>loyalty_program := Some lp\<rparr>"

section \<open>Booking\<close>

text \<open>
  The booking identifier is drawn from \<^verbatim>\<open>uuid.uuid4()\<close> in the source; here it is an
  argument of the constructor.
\<close>

definition Booking_init :: "string \<Rightarrow> ref \<Rightarrow> datetime \<Rightarrow> datetime \<Rightarrow> Booking" where
  "Booking_init bid g check_in check_out =
     \<lparr>booking_id = bid, guest = g, rooms = [], check_in_date = check_in,
      check_out_date = check_out, total_cost = 0, is_confirmed = False,
      is_canceled = False\<rparr>"

text \<open>
  \<^verbatim>\<open>timedelta.days\<close>: a \<^verbatim>\<open>timedelta\<close> is kept normalised with its seconds and
  microseconds non-negative, so the day count is the floor of the quotient.
\<close>

definition days :: "timedelta \<Rightarrow> int" where
  "days d = d div 86400000000"

text \<open>Python's \<^verbatim>\<open>sum\<close>: a left fold that starts at \<open>0\<close>.\<close>

definition py_sum :: "rat list \<Rightarrow> rat" where
  "py_sum xs = foldl (\<lambda>acc x. acc + x) 0 xs"

definition update_total_cost :: "heap \<Rightarrow> ref \<Rightarrow> heap" where
  "update_total_cost h b =
     (let self = booking_heap h b;
          nights = days (check_out_date self - check_in_date self);
          total = py_sum (map (\<lambda>r. price_per_night (room_heap h r) * of_int nights) (rooms self))
      in h\<lparr>booking_heap := (booking_heap h)(b := self\<lparr>total_cost := total\<rparr>)\<rparr>)"

definition add_room :: "heap \<Rightarrow> ref \<Rightarrow> ref \<Rightarrow> heap \<times> (error + bool)" where
  "add_room h b r =
     (let self = booking_heap h b; room = room_heap h r in
      case check_availability room (check_in_date self) (check_out_date self) of
        Inl e \<Rightarrow> (h, Inl e)
      | Inr available \<Rightarrow>
          if \<not> available then (h, Inl (RoomUnavailableError (room_number room)))
          else
            (case add_booking room (check_in_date self) (check_out_date self) of
               (room', Inl e) \<Rightarrow> (h\<lparr>room_heap := (room_heap h)(r := room')\<rparr>, Inl e)
             | (room', Inr _) \<Rightarrow>
                 let h1 = h\<lparr>room_heap := (room_heap h)(r := room')\<rparr>;
                     h2 = h1\<lparr>booking_heap := (booking_heap h1)(b := self\<lparr>rooms := rooms self @ [r]\<rparr>)\<rparr>
                 in (update_total_cost h2 b, Inr True)))"

text \<open>
  \<^verbatim>\<open>room in self._rooms\<close> compares by identity; \<^verbatim>\<open>list.remove\<close> deletes the first
  occurrence.
\<close>

definition remove_room :: "heap \<Rightarrow> ref \<Rightarrow> ref \<Rightarrow> heap \<times> bool" where
  "remove_room h b r =
     (let self = booking_heap h b in
      if r \<in> set (rooms self) then
        (update_total_cost
           (h\<lparr>booking_heap := (booking_heap h)(b := self\<lparr>rooms := remove1 r (rooms self)\<rparr>)\<rparr>) b,
         True)
      else (h, False))"

definition create_booking :: "heap \<Rightarrow> ref \<Rightarrow> heap \<times> (error + bool)" where
  "create_booking h b =
     (let self = booking_heap h b in
      if rooms self = [] then (h, Inl EmptyBookingError)
      else
        let h1 = h\<lparr>booking_heap := (booking_heap h)(b := self\<lparr>is_confirmed := True\<rparr>)\<rparr>;
            g = guest self;
            (g', _) = add_reservation (guest_heap h1 g) b
        in (h1\<lparr>guest_heap := (guest_heap h1)(g := g')\<rparr>, Inr True))"

definition cancel_booking :: "heap \<Rightarrow> ref \<Rightarrow> heap \<times> bool" where
  "cancel_booking h b =
     (let self = booking_heap h b in
      if is_canceled self then (h, False)
      else
        (h\<lparr>booking_heap :=
             (booking_heap h)(b := self\<lparr>is_canceled := True, is_confirmed := False\<rparr>)\<rparr>,
         True))"

definition send_confirmation :: "heap \<Rightarrow> ref \<Rightarrow> heap \<times> (error + bool)" where
  "send_confirmation h b =
     (if \<not> is_confirmed (booking_heap h b) then (h, Inl UnconfirmedBookingError)
      else (h, Inr True))"

definition calculate_total :: "heap \<Rightarrow> ref \<Rightarrow> heap \<times> rat" where
  "calculate_total h b =
     (let h' = update_total_cost h b in (h', total_cost (booking_heap h' b)))"

section \<open>The system as a sequence of calls\<close>

text \<open>
  A constructor call takes the next unused reference of its class, stores the new
  object there and returns the reference.
\<close>

definition new_room :: "heap \<Rightarrow> int \<Rightarrow> RoomType \<Rightarrow> string list \<Rightarrow> rat \<Rightarrow> heap \<times> ref" where
  "new_room h number rtype amen price =
     (let r = next_room h in
      (h\<lparr>room_heap := (room_heap h)(r := Room_init number rtype amen price),
         next_room := Suc r\<rparr>, r))"

definition new_guest :: "heap \<Rightarrow> int \<Rightarrow> string \<Rightarrow> string \<Rightarrow> string \<Rightarrow> heap \<times> ref" where
  "new_guest h gid nm ct em =
     (let g = next_guest h in
      (h\<lparr>guest_heap := (guest_heap h)(g := Guest_init gid nm ct em),
         next_guest := Suc g\<rparr>, g))"

definition new_booking :: "heap \<Rightarrow> string \<Rightarrow> ref \<Rightarrow> datetime \<Rightarrow> datetime \<Rightarrow> heap \<times> ref" where
  "new_booking h bid g check_in check_out =
     (let b = next_booking h in
      (h\<lparr>booking_heap := (booking_heap h)(b := Booking_init bid g check_in check_out),
         next_booking := Suc b\<rparr>, b))"

definition empty_heap :: heap where
  "empty_heap =
     \<lparr>room_heap = (\<lambda>_. Room_init 0 SINGLE [] 0),
      booking_heap = (\<lambda>_. Booking_init [] 0 0 0),
      guest_heap = (\<lambda>_. Guest_init 0 [] [] []),
      next_room = 0, next_guest = 0, next_booking = 0\<rparr>"

text \<open>
  The calls a client of the three classes can make. A client may catch an exception and
  go on, so \<open>step\<close> keeps the heap a call leaves behind whether it returned or raised.
  The methods left out (\<^verbatim>\<open>get_details\<close>, \<^verbatim>\<open>__str__\<close>, \<^verbatim>\<open>create_account\<close>,
  \<^verbatim>\<open>view_reservations\<close>, the getters) only read the state, and so do the other
  modules of the repository, which reach rooms and bookings through getters.
\<close>

datatype call =
    New_room int RoomType "string list" rat
  | New_guest int string string string
  | New_booking string ref datetime datetime
  | Check_availability ref datetime datetime
  | Add_booking ref datetime datetime
  | Update_status ref bool
  | Set_amenities ref "string list"
  | Set_price_per_night ref rat
  | Update_profile ref "string option" "string option" "string option"
  | Add_reservation ref ref
  | Set_loyalty_program ref ref
  | Add_room ref ref
  | Remove_room ref ref
  | Create_booking ref
  | Cancel_booking ref
  | Send_confirmation ref
  | Calculate_total ref

fun step :: "heap \<Rightarrow> call \<Rightarrow> heap" where
  "step h (New_room number rtype amen price) = fst (new_room h number rtype amen price)"
| "step h (New_guest gid nm ct em) = fst (new_guest h gid nm ct em)"
| "step h (New_booking bid g check_in check_out) = fst (new_booking h bid g check_in check_out)"
| "step h (Check_availability r check_in check_out) = h"
| "step h (Add_booking r check_in check_out) =
     h\<lparr>room_heap := (room_heap h)(r := fst (add_booking (room_heap h r) check_in check_out))\<rparr>"
| "step h (Update_status r avail) =
     h\<lparr>room_heap := (room_heap h)(r := update_status (room_heap h r) avail)\<rparr>"
| "step h (Set_amenities r v) =
     h\<lparr>room_heap := (room_heap h)(r := set_amenities (room_heap h r) v)\<rparr>"
| "step h (Set_price_per_night r v) =
     h\<lparr>room_heap := (room_heap h)(r := fst (set_price_per_night (room_heap h r) v))\<rparr>"
| "step h (Update_profile g nm ct em) =
     h\<lparr>guest_heap := (guest_heap h)(g := fst (update_profile (guest_heap h g) nm ct em))\<rparr>"
| "step h (Add_reservation g b) =
     h\<lparr>guest_heap := (guest_heap h)(g := fst (add_reservation (guest_heap h g) b))\<rparr>"
| "step h (Set_loyalty_program g lp) =
     h\<lparr>guest_heap := (guest_heap h)(g := set_loyalty_program (guest_heap h g) lp)\<rparr>"
| "step h (Add_room b r) = fst (add_room h b r)"
| "step h (Remove_room b r) = fst (remove_room h b r)"
| "step h (Create_booking b) = fst (create_booking h b)"
| "step h (Cancel_booking b) = fst (cancel_booking h b)"
| "step h (Send_confirmation b) = fst (send_confirmation h b)"
| "step h (Calculate_total b) = fst (calculate_total h b)"

fun run :: "heap \<Rightarrow> call list \<Rightarrow> heap" where
  "run h [] = h"
| "run h (c # cs) = run (step h c) cs"

section \<open>Properties of states\<close>

text \<open>Two half-open intervals overlap.\<close>

definition overlaps :: "datetime \<times> datetime \<Rightarrow> datetime \<times> datetime \<Rightarrow> bool" where
  "overlaps p q = (fst p < snd q \<and> snd p > fst q)"

text \<open>No two intervals at different positions of the list overlap.\<close>

fun no_overlap :: "(datetime \<times> datetime) list \<Rightarrow> bool" where
  "no_overlap [] = True"
| "no_overlap (p # ps) = (list_all (\<lambda>q. \<not> overlaps p q) ps \<and> no_overlap ps)"

text \<open>Every room created so far has a ledger without overlapping intervals.\<close>

definition ledgers_ok :: "heap \<Rightarrow> bool" where
  "ledgers_ok h = list_all (\<lambda>r. no_overlap (bookings (room_heap h r))) [0..<next_room h]"

text \<open>The number of nights of a booking and the cost its rooms add up to.\<close>

definition nights :: "Booking \<Rightarrow> int" where
  "nights self = days (check_out_date self - check_in_date self)"


text \<open>
  The setting of the test suite: rooms 101 (100 a night) and 201 (150 a night) at room
  references 0 and 1, a guest at guest reference 0 and, at booking reference 0, a
  booking of that guest from day 5 to day 8. \<open>confirmed_heap\<close> is the state after room
  101 has been added to the booking and the booking confirmed, \<open>canceled_heap\<close> the
  state after the booking has then been canceled, and \<open>repriced_heap\<close> the state after
  room 101 has been added and its price then set to 200.
\<close>

definition day :: "int \<Rightarrow> datetime" where
  "day n = n * 86400000000"

definition setup_calls :: "call list" where
  "setup_calls =
     [New_room 101 SINGLE [''Wi-Fi'', ''TV''] 100,
      New_room 201 DOUBLE [''Wi-Fi'', ''TV'', ''Mini-bar''] 150,
      New_guest 1 ''John Smith'' ''555-1234'' ''john@example.com'',
      New_booking ''b0000001'' 0 (day 5) (day 8)]"

definition setup_heap :: heap where
  "setup_heap = run empty_heap setup_calls"

definition confirmed_heap :: heap where
  "confirmed_heap = run setup_heap [Add_room 0 0, Create_booking 0]"

definition canceled_heap :: heap where
  "canceled_heap = run confirmed_heap [Cancel_booking 0]"


section \<open>Evaluation of the concrete states\<close>

lemmas setup_defs = setup_heap_def setup_calls_def empty_heap_def new_room_def new_guest_def
  new_booking_def Room_init_def Guest_init_def Booking_init_def day_def

lemmas call_defs = add_room_def add_booking_def check_availability_def update_total_cost_def
  create_booking_def add_reservation_def cancel_booking_def remove_room_def
  set_price_per_night_def py_sum_def days_def

section \<open>Availability\<close>

lemma check_availability_loop_iff:
  "check_availability_loop bs ci co \<longleftrightarrow> \<not> (\<exists>(s, e) \<in> set bs. s < co \<and> e > ci)"
  by (induction bs ci co rule: check_availability_loop.induct) auto

text \<open>
  C1. For dates with check-in strictly before check-out, \<^verbatim>\<open>check_availability\<close>
  returns \<^verbatim>\<open>False\<close> exactly when some stored interval \<open>(s, e)\<close> has \<open>s < check_out\<close> and
  \<open>e > check_in\<close>, and \<^verbatim>\<open>True\<close> otherwise. It returns \<^verbatim>\<open>True\<close> for a room without
  stored intervals, and a stored interval that the request only touches (the request
  starts where it ends, or ends where it starts) does not count: when every stored
  interval is touched in this way, the answer is \<^verbatim>\<open>True\<close>.
\<close>

theorem check_availability_half_open:
  assumes "check_in < check_out"
  shows "(check_availability self check_in check_out = Inr False \<longleftrightarrow>
            (\<exists>(s, e) \<in> set (bookings self). s < check_out \<and> e > check_in))
    \<and> (check_availability self check_in check_out = Inr True \<longleftrightarrow>
            \<not> (\<exists>(s, e) \<in> set (bookings self). s < check_out \<and> e > check_in))
    \<and> (bookings self = [] \<longrightarrow> check_availability self check_in check_out = Inr True)
    \<and> ((\<forall>(s, e) \<in> set (bookings self). check_in = e \<or> check_out = s) \<longrightarrow>
            check_availability self check_in check_out = Inr True)"
  using assms by (auto simp: check_availability_def check_availability_loop_iff)

theorem check_availability_half_open_witness:
  "day 7 < day 10 \<and> day 8 < day 10 \<and> day 2 < day 5
   \<and> check_availability ((Room_init 201 DOUBLE [] 150)\<lparr>bookings := [(day 5, day 8)]\<rparr>) (day 7) (day 10) = Inr False
   \<and> check_availability ((Room_init 201 DOUBLE [] 150)\<lparr>bookings := [(day 5, day 8)]\<rparr>) (day 8) (day 10) = Inr True
   \<and> check_availability ((Room_init 201 DOUBLE [] 150)\<lparr>bookings := [(day 5, day 8)]\<rparr>) (day 2) (day 5) = Inr True
   \<and> check_availability (Room_init 201 DOUBLE [] 150) (day 7) (day 10) = Inr True"
  using check_availability_half_open [of "day 7" "day 10" "(Room_init 201 DOUBLE [] 150)\<lparr>bookings := [(day 5, day 8)]\<rparr>"]
        check_availability_half_open [of "day 8" "day 10" "(Room_init 201 DOUBLE [] 150)\<lparr>bookings := [(day 5, day 8)]\<rparr>"]
        check_availability_half_open [of "day 2" "day 5" "(Room_init 201 DOUBLE [] 150)\<lparr>bookings := [(day 5, day 8)]\<rparr>"]
        check_availability_half_open [of "day 7" "day 10" "Room_init 201 DOUBLE [] 150"]
  by (simp add: Room_init_def day_def)

section \<open>Range validation\<close>

text \<open>
  C9. When check-in is not strictly before check-out, \<^verbatim>\<open>check_availability\<close> raises
  the invalid-range error, and so do \<^verbatim>\<open>add_booking\<close> and \<^verbatim>\<open>add_room\<close> (for a
  booking with such dates), each leaving the room and the whole heap as they were: the
  range is not corrected and nothing is stored.
\<close>

theorem invalid_range_raises:
  "(check_in \<ge> check_out \<longrightarrow>
      check_availability self check_in check_out = Inl InvalidRangeError
      \<and> add_booking self check_in check_out = (self, Inl InvalidRangeError))
   \<and> (check_in_date (booking_heap h b) \<ge> check_out_date (booking_heap h b) \<longrightarrow>
      add_room h b r = (h, Inl InvalidRangeError))"
  by (simp add: check_availability_def add_booking_def add_room_def)

theorem invalid_range_raises_witness:
  "day 8 \<ge> day 5 \<and> day 5 \<ge> day 5
   \<and> check_availability (Room_init 101 SINGLE [] 100) (day 8) (day 5) = Inl InvalidRangeError
   \<and> check_availability (Room_init 101 SINGLE [] 100) (day 5) (day 5) = Inl InvalidRangeError
   \<and> add_booking (Room_init 101 SINGLE [] 100) (day 8) (day 5)
        = (Room_init 101 SINGLE [] 100, Inl InvalidRangeError)
   \<and> check_in_date (booking_heap (run setup_heap [New_booking ''b0000002'' 0 (day 8) (day 5)]) 1)
        \<ge> check_out_date (booking_heap (run setup_heap [New_booking ''b0000002'' 0 (day 8) (day 5)]) 1)
   \<and> add_room (run setup_heap [New_booking ''b0000002'' 0 (day 8) (day 5)]) 1 0
        = (run setup_heap [New_booking ''b0000002'' 0 (day 8) (day 5)], Inl InvalidRangeError)"
  using invalid_range_raises [of "day 5" "day 8" "Room_init 101 SINGLE [] 100"
          "run setup_heap [New_booking ''b0000002'' 0 (day 8) (day 5)]" 1 0]
        invalid_range_raises [of "day 5" "day 5" "Room_init 101 SINGLE [] 100"
          "run setup_heap [New_booking ''b0000002'' 0 (day 8) (day 5)]" 1 0]
  by (simp add: setup_defs)

section \<open>Reserving a room\<close>

text \<open>
  C3. For a valid date range, \<^verbatim>\<open>add_booking\<close> decides by the availability test it
  runs itself: when the range overlaps a stored interval it raises the room-unavailable
  error and leaves the room unchanged; otherwise it appends exactly the requested
  interval and returns \<^verbatim>\<open>True\<close>. \<^verbatim>\<open>add_room\<close> on a booking whose dates overlap a
  stored interval of the room raises the room-unavailable error too and leaves the
  whole heap unchanged, in particular the booking's room list and total cost.
\<close>

theorem reserve_rechecks_availability:
  assumes "check_in < check_out"
  shows "((\<exists>(s, e) \<in> set (bookings self). s < check_out \<and> e > check_in) \<longrightarrow>
            add_booking self check_in check_out
              = (self, Inl (RoomUnavailableError (room_number self))))
    \<and> (\<not> (\<exists>(s, e) \<in> set (bookings self). s < check_out \<and> e > check_in) \<longrightarrow>
            add_booking self check_in check_out
              = (self\<lparr>bookings := bookings self @ [(check_in, check_out)]\<rparr>, Inr True))
    \<and> (check_in_date (booking_heap h b) = check_in
          \<and> check_out_date (booking_heap h b) = check_out
          \<and> (\<exists>(s, e) \<in> set (bookings (room_heap h r)). s < check_out \<and> e > check_in) \<longrightarrow>
            add_room h b r = (h, Inl (RoomUnavailableError (room_number (room_heap h r)))))"
  using assms
  by (auto simp: add_booking_def add_room_def check_availability_def check_availability_loop_iff)

theorem reserve_rechecks_availability_witness:
  "day 7 < day 10 \<and> day 8 < day 10 \<and> day 5 < day 8
   \<and> add_booking ((Room_init 201 DOUBLE [] 150)\<lparr>bookings := [(day 5, day 8)]\<rparr>) (day 7) (day 10)
        = ((Room_init 201 DOUBLE [] 150)\<lparr>bookings := [(day 5, day 8)]\<rparr>, Inl (RoomUnavailableError 201))
   \<and> add_booking ((Room_init 201 DOUBLE [] 150)\<lparr>bookings := [(day 5, day 8)]\<rparr>) (day 8) (day 10)
        = ((Room_init 201 DOUBLE [] 150)\<lparr>bookings := [(day 5, day 8), (day 8, day 10)]\<rparr>, Inr True)
   \<and> add_room (run setup_heap [Add_booking 0 (day 7) (day 10)]) 0 0
        = (run setup_heap [Add_booking 0 (day 7) (day 10)], Inl (RoomUnavailableError 101))"
  using reserve_rechecks_availability [of "day 7" "day 10"
          "(Room_init 201 DOUBLE [] 150)\<lparr>bookings := [(day 5, day 8)]\<rparr>" empty_heap 0 0]
        reserve_rechecks_availability [of "day 8" "day 10"
          "(Room_init 201 DOUBLE [] 150)\<lparr>bookings := [(day 5, day 8)]\<rparr>" empty_heap 0 0]
        reserve_rechecks_availability [of "day 5" "day 8" "Room_init 201 DOUBLE [] 150"
          "run setup_heap [Add_booking 0 (day 7) (day 10)]" 0 0]
  by (simp add: setup_defs add_booking_def check_availability_def)

section \<open>Confirming and canceling\<close>

lemma create_booking_empty:
  "rooms (booking_heap h b) = [] \<Longrightarrow> create_booking h b = (h, Inl EmptyBookingError)"
  by (simp add: create_booking_def)

lemma create_booking_nonempty:
  "rooms (booking_heap h b) \<noteq> [] \<Longrightarrow>
     create_booking h b =
       (h\<lparr>booking_heap := (booking_heap h)(b := (booking_heap h b)\<lparr>is_confirmed := True\<rparr>),
          guest_heap := (guest_heap h)(guest (booking_heap h b) :=
             (guest_heap h (guest (booking_heap h b)))
               \<lparr>reservations := reservations (guest_heap h (guest (booking_heap h b))) @ [b]\<rparr>)\<rparr>,
        Inr True)"
  by (simp add: create_booking_def add_reservation_def Let_def)

text \<open>
  C6. \<^verbatim>\<open>create_booking\<close> on a booking without rooms raises the empty-booking error
  and leaves the heap unchanged. On a booking with at least one room it returns
  \<^verbatim>\<open>True\<close>, sets the confirmed flag of the booking and nothing else of it, appends the
  booking to the reservations of its guest, and leaves the rooms alone.
\<close>

theorem create_booking_contract:
  "(rooms (booking_heap h b) = [] \<longrightarrow> create_booking h b = (h, Inl EmptyBookingError))
   \<and> (rooms (booking_heap h b) \<noteq> [] \<longrightarrow>
        snd (create_booking h b) = Inr True
        \<and> is_confirmed (booking_heap (fst (create_booking h b)) b)
        \<and> booking_heap (fst (create_booking h b))
            = (booking_heap h)(b := (booking_heap h b)\<lparr>is_confirmed := True\<rparr>)
        \<and> reservations (guest_heap (fst (create_booking h b)) (guest (booking_heap h b)))
            = reservations (guest_heap h (guest (booking_heap h b))) @ [b]
        \<and> room_heap (fst (create_booking h b)) = room_heap h)"
  by (simp add: create_booking_empty create_booking_nonempty)

theorem create_booking_contract_witness:
  "rooms (booking_heap setup_heap 0) = []
   \<and> create_booking setup_heap 0 = (setup_heap, Inl EmptyBookingError)
   \<and> rooms (booking_heap (run setup_heap [Add_room 0 0]) 0) \<noteq> []
   \<and> snd (create_booking (run setup_heap [Add_room 0 0]) 0) = Inr True
   \<and> is_confirmed (booking_heap (fst (create_booking (run setup_heap [Add_room 0 0]) 0)) 0)
   \<and> reservations (guest_heap (fst (create_booking (run setup_heap [Add_room 0 0]) 0)) 0) = [0]"
  using create_booking_contract [of setup_heap 0]
        create_booking_contract [of "run setup_heap [Add_room 0 0]" 0]
  by (simp add: setup_defs add_room_def add_booking_def check_availability_def
        update_total_cost_def)

text \<open>
  C7. \<^verbatim>\<open>cancel_booking\<close> and \<^verbatim>\<open>remove_room\<close> have no raising branch: their results
  are plain booleans. \<^verbatim>\<open>cancel_booking\<close> on a canceled booking returns \<^verbatim>\<open>False\<close> and
  leaves the heap unchanged; otherwise it sets the canceled flag, clears the confirmed
  flag, changes nothing else and returns \<^verbatim>\<open>True\<close>. \<^verbatim>\<open>remove_room\<close> with a room that
  is not in the booking's list returns \<^verbatim>\<open>False\<close> and leaves the heap unchanged, so the
  room list and the total cost stay as they were.
\<close>

theorem cancel_and_remove_noops:
  "(is_canceled (booking_heap h b) \<longrightarrow> cancel_booking h b = (h, False))
   \<and> (\<not> is_canceled (booking_heap h b) \<longrightarrow>
        cancel_booking h b =
          (h\<lparr>booking_heap := (booking_heap h)
                (b := (booking_heap h b)\<lparr>is_canceled := True, is_confirmed := False\<rparr>)\<rparr>, True))
   \<and> (r \<notin> set (rooms (booking_heap h b)) \<longrightarrow> remove_room h b r = (h, False))"
  by (simp add: cancel_booking_def remove_room_def)

theorem cancel_and_remove_noops_witness:
  "is_canceled (booking_heap canceled_heap 0)
   \<and> cancel_booking canceled_heap 0 = (canceled_heap, False)
   \<and> \<not> is_canceled (booking_heap confirmed_heap 0)
   \<and> snd (cancel_booking confirmed_heap 0) = True
   \<and> is_canceled (booking_heap (fst (cancel_booking confirmed_heap 0)) 0)
   \<and> \<not> is_confirmed (booking_heap (fst (cancel_booking confirmed_heap 0)) 0)
   \<and> 1 \<notin> set (rooms (booking_heap confirmed_heap 0))
   \<and> remove_room confirmed_heap 0 1 = (confirmed_heap, False)"
  using cancel_and_remove_noops [of canceled_heap 0 1]
        cancel_and_remove_noops [of confirmed_heap 0 1]
  by (simp add: canceled_heap_def confirmed_heap_def setup_defs add_room_def add_booking_def
        check_availability_def update_total_cost_def create_booking_def add_reservation_def)

text \<open>
  C10. \<^verbatim>\<open>create_booking\<close> does not look at the canceled flag. On a canceled booking
  with at least one room it returns \<^verbatim>\<open>True\<close>, appends the booking to the guest's
  reservations once more, and leaves the booking with the confirmed flag and the
  canceled flag both set.
\<close>

theorem create_booking_ignores_canceled:
  "is_canceled (booking_heap h b) \<and> rooms (booking_heap h b) \<noteq> [] \<longrightarrow>
     snd (create_booking h b) = Inr True
     \<and> is_confirmed (booking_heap (fst (create_booking h b)) b)
     \<and> is_canceled (booking_heap (fst (create_booking h b)) b)
     \<and> reservations (guest_heap (fst (create_booking h b)) (guest (booking_heap h b)))
         = reservations (guest_heap h (guest (booking_heap h b))) @ [b]"
  by (simp add: create_booking_nonempty)

theorem create_booking_ignores_canceled_witness:
  "is_canceled (booking_heap canceled_heap 0)
   \<and> \<not> is_confirmed (booking_heap canceled_heap 0)
   \<and> rooms (booking_heap canceled_heap 0) \<noteq> []
   \<and> reservations (guest_heap canceled_heap 0) = [0]
   \<and> snd (create_booking canceled_heap 0) = Inr True
   \<and> is_confirmed (booking_heap (fst (create_booking canceled_heap 0)) 0)
   \<and> is_canceled (booking_heap (fst (create_booking canceled_heap 0)) 0)
   \<and> reservations (guest_heap (fst (create_booking canceled_heap 0)) 0) = [0, 0]"
  using create_booking_ignores_canceled [of canceled_heap 0]
  by (simp add: canceled_heap_def confirmed_heap_def setup_defs add_room_def add_booking_def
        check_availability_def update_total_cost_def create_booking_def add_reservation_def
        cancel_booking_def)

text \<open>
  Confirming the same booking \<open>n\<close> times in a row appends it \<open>n\<close> times to the
  reservations of its guest.
\<close>

lemma run_create_booking_history:
  "rooms (booking_heap h b) \<noteq> [] \<Longrightarrow>
     rooms (booking_heap (run h (replicate n (Create_booking b))) b) = rooms (booking_heap h b)
     \<and> guest (booking_heap (run h (replicate n (Create_booking b))) b) = guest (booking_heap h b)
     \<and> reservations (guest_heap (run h (replicate n (Create_booking b))) (guest (booking_heap h b)))
         = reservations (guest_heap h (guest (booking_heap h b))) @ replicate n b"
proof (induction n arbitrary: h)
  case 0
  then show ?case by simp
next
  case (Suc n)
  let ?h1 = "fst (create_booking h b)"
  have r1: "rooms (booking_heap ?h1 b) = rooms (booking_heap h b)"
    and g1: "guest (booking_heap ?h1 b) = guest (booking_heap h b)"
    and v1: "reservations (guest_heap ?h1 (guest (booking_heap h b)))
               = reservations (guest_heap h (guest (booking_heap h b))) @ [b]"
    using Suc.prems by (simp_all add: create_booking_nonempty)
  from Suc.prems r1 have "rooms (booking_heap ?h1 b) \<noteq> []" by simp
  from Suc.IH [OF this] r1 g1 v1 show ?case
    by (simp add: replicate_app_Cons_same)
qed

text \<open>
  C5, as the claim states it, fails: \<^verbatim>\<open>add_reservation\<close> appends without looking for
  the booking in the list. In \<open>confirmed_heap\<close> the booking is confirmed and is in the
  guest's reservations once; confirming it again returns \<^verbatim>\<open>True\<close> and the booking is
  then in the reservations twice, so the second call is not a no-op and the history
  holds two entries for one booking.
\<close>

theorem confirm_twice_counterexample:
  "is_confirmed (booking_heap confirmed_heap 0)
   \<and> reservations (guest_heap confirmed_heap 0) = [0]
   \<and> snd (create_booking confirmed_heap 0) = Inr True
   \<and> reservations (guest_heap (fst (create_booking confirmed_heap 0)) 0) = [0, 0]
   \<and> fst (create_booking confirmed_heap 0) \<noteq> confirmed_heap"
proof -
  have a: "reservations (guest_heap confirmed_heap 0) = [0]"
    by (simp add: confirmed_heap_def setup_defs call_defs)
  have b: "reservations (guest_heap (fst (create_booking confirmed_heap 0)) 0) = [0, 0]"
    by (simp add: confirmed_heap_def setup_defs call_defs)
  have c: "is_confirmed (booking_heap confirmed_heap 0)"
    by (simp add: confirmed_heap_def setup_defs call_defs)
  have d: "snd (create_booking confirmed_heap 0) = Inr True"
    by (simp add: confirmed_heap_def setup_defs call_defs)
  have "fst (create_booking confirmed_heap 0) \<noteq> confirmed_heap"
  proof
    assume "fst (create_booking confirmed_heap 0) = confirmed_heap"
    then have "reservations (guest_heap (fst (create_booking confirmed_heap 0)) 0)
                 = reservations (guest_heap confirmed_heap 0)"
      by simp
    with a b show False by simp
  qed
  with a b c d show ?thesis by simp
qed

text \<open>
  C5, amended. On a booking with at least one room every call of \<^verbatim>\<open>create_booking\<close>
  returns \<^verbatim>\<open>True\<close>, leaves the booking confirmed and appends one entry for the booking
  to the reservations of its guest: \<open>n\<close> calls in a row append \<open>n\<close> entries. A call on
  a booking that is already confirmed is permitted and changes no booking, but it
  appends its entry all the same.
\<close>

theorem create_booking_appends_each_call:
  "rooms (booking_heap h b) \<noteq> [] \<longrightarrow>
     snd (create_booking h b) = Inr True
     \<and> is_confirmed (booking_heap (fst (create_booking h b)) b)
     \<and> reservations (guest_heap (fst (create_booking h b)) (guest (booking_heap h b)))
         = reservations (guest_heap h (guest (booking_heap h b))) @ [b]
     \<and> (is_confirmed (booking_heap h b) \<longrightarrow>
          booking_heap (fst (create_booking h b)) = booking_heap h)
     \<and> reservations (guest_heap (run h (replicate n (Create_booking b))) (guest (booking_heap h b)))
         = reservations (guest_heap h (guest (booking_heap h b))) @ replicate n b"
  using run_create_booking_history [of h b n]
  by (auto simp: create_booking_nonempty)

theorem create_booking_appends_each_call_witness:
  "rooms (booking_heap confirmed_heap 0) \<noteq> []
   \<and> is_confirmed (booking_heap confirmed_heap 0)
   \<and> snd (create_booking confirmed_heap 0) = Inr True
   \<and> booking_heap (fst (create_booking confirmed_heap 0)) = booking_heap confirmed_heap
   \<and> reservations (guest_heap (run confirmed_heap (replicate 2 (Create_booking 0))) 0) = [0, 0, 0]"
proof -
  have r: "rooms (booking_heap confirmed_heap 0) \<noteq> []"
    by (simp add: confirmed_heap_def setup_defs call_defs)
  have c: "is_confirmed (booking_heap confirmed_heap 0)"
    by (simp add: confirmed_heap_def setup_defs call_defs)
  have g: "guest (booking_heap confirmed_heap 0) = 0"
    by (simp add: confirmed_heap_def setup_defs call_defs)
  have v: "reservations (guest_heap confirmed_heap 0) = [0]"
    by (simp add: confirmed_heap_def setup_defs call_defs)
  from r c g v create_booking_appends_each_call [of confirmed_heap 0 2]
  show ?thesis by (simp add: numeral_2_eq_2)
qed

section \<open>Total cost\<close>









section \<open>The ledger of a room\<close>

text \<open>
  \<open>no_overlap\<close> says what its name says: no two entries at different positions of the
  list overlap.
\<close>

lemma overlaps_sym: "overlaps p q \<longleftrightarrow> overlaps q p"
  by (auto simp: overlaps_def)

lemma no_overlap_pairwise:
  "no_overlap bs \<longleftrightarrow>
     (\<forall>i < length bs. \<forall>j < length bs. i \<noteq> j \<longrightarrow> \<not> overlaps (bs ! i) (bs ! j))"
proof (induction bs)
  case Nil
  then show ?case by simp
next
  case (Cons p ps)
  have head: "list_all (\<lambda>q. \<not> overlaps p q) ps \<longleftrightarrow> (\<forall>k < length ps. \<not> overlaps p (ps ! k))"
    by (simp add: list_all_length)
  show ?case
  proof
    assume l: "no_overlap (p # ps)"
    show "\<forall>i < length (p # ps). \<forall>j < length (p # ps). i \<noteq> j \<longrightarrow>
            \<not> overlaps ((p # ps) ! i) ((p # ps) ! j)"
    proof (intro allI impI)
      fix i j
      assume "i < length (p # ps)" "j < length (p # ps)" "i \<noteq> j"
      with l head Cons.IH show "\<not> overlaps ((p # ps) ! i) ((p # ps) ! j)"
        by (cases i; cases j) (auto simp: overlaps_sym [of _ p])
    qed
  next
    assume r: "\<forall>i < length (p # ps). \<forall>j < length (p # ps). i \<noteq> j \<longrightarrow>
            \<not> overlaps ((p # ps) ! i) ((p # ps) ! j)"
    have "\<forall>k < length ps. \<not> overlaps p (ps ! k)"
    proof (intro allI impI)
      fix k assume "k < length ps"
      with r [rule_format, of 0 "Suc k"] show "\<not> overlaps p (ps ! k)" by simp
    qed
    moreover have "\<forall>i < length ps. \<forall>j < length ps. i \<noteq> j \<longrightarrow> \<not> overlaps (ps ! i) (ps ! j)"
    proof (intro allI impI)
      fix i j assume "i < length ps" "j < length ps" "i \<noteq> j"
      with r [rule_format, of "Suc i" "Suc j"] show "\<not> overlaps (ps ! i) (ps ! j)" by simp
    qed
    ultimately show "no_overlap (p # ps)"
      using head Cons.IH by simp
  qed
qed

lemma no_overlap_append:
  "no_overlap (bs @ [p]) \<longleftrightarrow> no_overlap bs \<and> list_all (\<lambda>q. \<not> overlaps q p) bs"
  by (induction bs) (auto simp: list_all_iff)

lemma update_total_cost_room_heap [simp]:
  "room_heap (update_total_cost h b) = room_heap h"
  "next_room (update_total_cost h b) = next_room h"
  by (simp_all add: update_total_cost_def Let_def)

lemma add_booking_ledger:
  "bookings (fst (add_booking self ci co)) = bookings self
   \<or> (ci < co \<and> check_availability_loop (bookings self) ci co
       \<and> bookings (fst (add_booking self ci co)) = bookings self @ [(ci, co)])"
  by (simp add: add_booking_def check_availability_def)

lemma add_room_ledger:
  "bookings (room_heap (fst (add_room h b r)) r') = bookings (room_heap h r')
   \<or> (\<exists>ci co. ci < co \<and> check_availability_loop (bookings (room_heap h r')) ci co
       \<and> bookings (room_heap (fst (add_room h b r)) r') = bookings (room_heap h r') @ [(ci, co)])"
  by (auto simp: add_room_def add_booking_def check_availability_def Let_def)

lemma add_room_next_room: "next_room (fst (add_room h b r)) = next_room h"
  by (auto simp: add_room_def add_booking_def check_availability_def Let_def)

lemma step_next_room:
  "next_room (step h c) = next_room h
   \<or> (next_room (step h c) = Suc (next_room h)
       \<and> bookings (room_heap (step h c) (next_room h)) = [])"
  by (cases c)
     (simp_all add: new_room_def new_guest_def new_booking_def Room_init_def Let_def
        add_room_next_room remove_room_def create_booking_def add_reservation_def
        cancel_booking_def send_confirmation_def calculate_total_def)

lemma step_ledger:
  "r < next_room h \<Longrightarrow>
     bookings (room_heap (step h c) r) = bookings (room_heap h r)
     \<or> (\<exists>ci co. ci < co \<and> check_availability_loop (bookings (room_heap h r)) ci co
         \<and> bookings (room_heap (step h c) r) = bookings (room_heap h r) @ [(ci, co)])"
proof (cases c)
  case (Add_booking r' ci co)
  then show ?thesis using add_booking_ledger [of "room_heap h r" ci co] by auto
next
  case (Add_room b r')
  then show ?thesis using add_room_ledger [of h b r' r] by simp
qed (simp_all add: new_room_def new_guest_def new_booking_def Let_def update_status_def
       set_amenities_def set_price_per_night_def remove_room_def create_booking_def
       add_reservation_def cancel_booking_def send_confirmation_def calculate_total_def)


lemma no_overlap_accept:
  "no_overlap bs \<Longrightarrow> check_availability_loop bs ci co \<Longrightarrow> no_overlap (bs @ [(ci, co)])"
  by (auto simp: no_overlap_append check_availability_loop_iff list_all_iff overlaps_def)

lemma step_no_overlap:
  assumes "r < next_room h" and "no_overlap (bookings (room_heap h r))"
  shows "no_overlap (bookings (room_heap (step h c) r))"
  using step_ledger [OF assms(1), of c] assms(2) by (auto intro: no_overlap_accept)

lemma ledgers_ok_iff:
  "ledgers_ok h \<longleftrightarrow> (\<forall>r < next_room h. no_overlap (bookings (room_heap h r)))"
  by (auto simp: ledgers_ok_def list_all_iff)

lemma step_ledgers_ok:
  assumes "ledgers_ok h"
  shows "ledgers_ok (step h c)"
  unfolding ledgers_ok_iff
proof (intro allI impI)
  fix r
  assume r: "r < next_room (step h c)"
  show "no_overlap (bookings (room_heap (step h c) r))"
  proof (cases "r < next_room h")
    case True
    with assms show ?thesis by (simp add: ledgers_ok_iff step_no_overlap)
  next
    case False
    with r step_next_room [of h c] have "r = next_room h"
      and "bookings (room_heap (step h c) (next_room h)) = []"
      by auto
    then show ?thesis by simp
  qed
qed

lemma run_ledgers_ok: "ledgers_ok h \<Longrightarrow> ledgers_ok (run h cs)"
  by (induction cs arbitrary: h) (simp_all add: step_ledgers_ok)

lemma step_prefix:
  "r < next_room h \<Longrightarrow> prefix (bookings (room_heap h r)) (bookings (room_heap (step h c) r))"
  using step_ledger [of r h c] by auto

lemma step_next_room_mono: "next_room h \<le> next_room (step h c)"
  using step_next_room [of h c] by auto

lemma run_prefix:
  "r < next_room h \<Longrightarrow> prefix (bookings (room_heap h r)) (bookings (room_heap (run h cs) r))"
proof (induction cs arbitrary: h)
  case Nil
  then show ?case by simp
next
  case (Cons c cs)
  from Cons.prems step_next_room_mono [of h c] have "r < next_room (step h c)" by simp
  from Cons.IH [OF this] step_prefix [OF Cons.prems, of c] show ?case
    by (auto intro: prefix_order.trans)
qed

text \<open>
  C4. A room starts with an empty interval list, which has no overlapping pair, and
  every call of the system keeps the interval list of every existing room free of
  overlapping pairs: the list changes only where \<^verbatim>\<open>add_booking\<close> appends an interval
  that has passed the availability test. So the invariant holds in every state reached
  from the empty heap.
\<close>

theorem no_overlap_invariant:
  "no_overlap (bookings (Room_init number rtype amen price))
   \<and> ledgers_ok empty_heap
   \<and> (ledgers_ok h \<longrightarrow> ledgers_ok (step h c))
   \<and> (ledgers_ok h \<longrightarrow> ledgers_ok (run h cs))
   \<and> ledgers_ok (run empty_heap cs')"
proof -
  have e: "ledgers_ok empty_heap" by (simp add: ledgers_ok_def empty_heap_def)
  from e run_ledgers_ok [of empty_heap cs'] run_ledgers_ok [of h cs] step_ledgers_ok [of h c]
  show ?thesis by (simp add: Room_init_def)
qed

theorem no_overlap_invariant_witness:
  "ledgers_ok confirmed_heap
   \<and> ledgers_ok (step confirmed_heap (Add_booking 0 (day 7) (day 10)))
   \<and> ledgers_ok (run confirmed_heap
        [Cancel_booking 0, Remove_room 0 0, Add_booking 0 (day 7) (day 10),
         Add_booking 0 (day 8) (day 10)])
   \<and> bookings (room_heap (run confirmed_heap
        [Cancel_booking 0, Remove_room 0 0, Add_booking 0 (day 7) (day 10),
         Add_booking 0 (day 8) (day 10)]) 0) = [(day 5, day 8), (day 8, day 10)]"
proof -
  have n: "next_room confirmed_heap = 2"
    by (simp add: confirmed_heap_def setup_defs call_defs)
  have b0: "bookings (room_heap confirmed_heap 0) = [(day 5, day 8)]"
    by (simp add: confirmed_heap_def setup_defs call_defs)
  have b1: "bookings (room_heap confirmed_heap (Suc 0)) = []"
    by (simp add: confirmed_heap_def setup_defs call_defs)
  have ok: "ledgers_ok confirmed_heap"
    by (simp add: ledgers_ok_def n b0 b1 eval_nat_numeral)
  have l: "bookings (room_heap (run confirmed_heap
        [Cancel_booking 0, Remove_room 0 0, Add_booking 0 (day 7) (day 10),
         Add_booking 0 (day 8) (day 10)]) 0) = [(day 5, day 8), (day 8, day 10)]"
    by (simp add: confirmed_heap_def setup_defs call_defs)
  from ok l
    no_overlap_invariant [of 0 SINGLE "[]" 0 confirmed_heap "Add_booking 0 (day 7) (day 10)"
      "[Cancel_booking 0, Remove_room 0 0, Add_booking 0 (day 7) (day 10),
        Add_booking 0 (day 8) (day 10)]" "[]"]
  show ?thesis by simp
qed

text \<open>
  C8. \<^verbatim>\<open>cancel_booking\<close> and \<^verbatim>\<open>remove_room\<close> leave every room as it was, interval
  list included. Over any sequence of calls the interval list of an existing room only
  grows at its end: the list before is a prefix of the list after, so an interval once
  appended is never removed.
\<close>

theorem ledger_only_grows:
  "room_heap (fst (cancel_booking h b)) = room_heap h
   \<and> room_heap (fst (remove_room h b r)) = room_heap h
   \<and> (r < next_room h \<longrightarrow>
        prefix (bookings (room_heap h r)) (bookings (room_heap (run h cs) r)))"
  by (simp add: cancel_booking_def remove_room_def Let_def run_prefix)

theorem ledger_only_grows_witness:
  "0 < next_room confirmed_heap
   \<and> bookings (room_heap confirmed_heap 0) = [(day 5, day 8)]
   \<and> bookings (room_heap (fst (cancel_booking confirmed_heap 0)) 0) = [(day 5, day 8)]
   \<and> bookings (room_heap (fst (remove_room confirmed_heap 0 0)) 0) = [(day 5, day 8)]
   \<and> prefix [(day 5, day 8)]
        (bookings (room_heap (run confirmed_heap
           [Cancel_booking 0, Remove_room 0 0, New_room 301 SUITE [] 250,
            Add_booking 0 (day 8) (day 10)]) 0))"
proof -
  have n: "next_room confirmed_heap = 2"
    by (simp add: confirmed_heap_def setup_defs call_defs)
  have b0: "bookings (room_heap confirmed_heap 0) = [(day 5, day 8)]"
    by (simp add: confirmed_heap_def setup_defs call_defs)
  from n b0
    ledger_only_grows [of confirmed_heap 0 0
      "[Cancel_booking 0, Remove_room 0 0, New_room 301 SUITE [] 250,
        Add_booking 0 (day 8) (day 10)]"]
  show ?thesis by simp
qed

end
